theory Spec2Isabelle
  imports Complex_Main
begin

section \<open>Givegram front-end controller (frontend/js/app.js)\<close>

text \<open>
  The controller is one script: a global \<open>state\<close> object, two \<open>localStorage\<close> keys, the
  DOM elements it writes to, and \<open>async\<close> handlers that talk to the backend through
  \<open>apiPost\<close>. The model passes all of it explicitly as one \<open>world\<close> value. A handler is a
  function from the world before the event to the world after its promise has settled;
  a handler runs to completion before the next one starts (no second event is
  interleaved at an \<open>await\<close>). The backend is a parameter: a function from the calls
  answered so far and the request to the response, so that it may answer the same
  request differently at different times. Every call is appended to \<open>calls\<close>, with its
  response, which is how the theorems below count network calls.

  JavaScript strings are modelled as \<open>string\<close>; \<open>null\<close> is \<open>None\<close>.
\<close>

subsection \<open>Constants\<close>

definition COUNTDOWN_SECONDS :: nat where
  "COUNTDOWN_SECONDS = 5"

definition WINNER_REVEAL_SECONDS :: nat where
  "WINNER_REVEAL_SECONDS = 3"

definition CONGRATS_MESSAGES :: "string list" where
  "CONGRATS_MESSAGES =
     [''Congratulations!'',
      ''You're a winner!'',
      ''Lucky you!'',
      ''What a pick!'',
      ''Amazing!'',
      ''Incredible!'',
      ''Well deserved!'',
      ''You did it!'',
      ''Brilliant!'',
      ''Fantastic!'']"

definition COOKIE_STORAGE_KEY :: string where
  "COOKIE_STORAGE_KEY = ''givegram_session_cookie''"

definition SESSION_ID_STORAGE_KEY :: string where
  "SESSION_ID_STORAGE_KEY = ''givegram_session_id''"

subsection \<open>Strings: truthiness, trim, number formatting\<close>

text \<open>\<open>if (s)\<close> on a value that is a string or \<open>null\<close>: \<open>null\<close> and \<open>""\<close> are falsy.\<close>

definition truthy :: "string option \<Rightarrow> bool" where
  "truthy v = (case v of None \<Rightarrow> False | Some s \<Rightarrow> s \<noteq> [])"

text \<open>\<open>a || b\<close> where \<open>a\<close> is a string or \<open>undefined\<close>.\<close>

definition or_else :: "string option \<Rightarrow> string \<Rightarrow> string" where
  "or_else v d = (case v of None \<Rightarrow> d | Some s \<Rightarrow> if s = [] then d else s)"

text \<open>
  \<open>String.prototype.trim\<close> strips white space and line terminators from both ends; among
  the character codes below 256 these are 9 to 13, 32 and 160.
\<close>

definition is_space :: "char \<Rightarrow> bool" where
  "is_space c = (let n = (of_char c :: nat) in (9 \<le> n \<and> n \<le> 13) \<or> n = 32 \<or> n = 160)"

definition trim :: "string \<Rightarrow> string" where
  "trim s = rev (dropWhile is_space (rev (dropWhile is_space s)))"

text \<open>Decimal rendering of a number inside a template literal.\<close>

fun string_of_nat :: "nat \<Rightarrow> string" where
  "string_of_nat n =
     (if n < 10 then [char_of (48 + n)]
      else string_of_nat (n div 10) @ [char_of (48 + n mod 10)])"

declare string_of_nat.simps [simp del]

subsection \<open>INSTAGRAM_URL_RE\<close>

text \<open>
  \<^verbatim>\<open>/^https?:\/\/(?:www\.)?instagram\.com\/(?:p|reel|tv)\/[\w-]+\/?/i\<close>

  The matcher computes, piece by piece, every remainder of the input that a match of
  the pattern so far can leave (so the optional pieces may be taken or skipped, as a
  backtracking matcher would try). The pattern is anchored at the start only: \<open>test\<close>
  succeeds when some remainder is left after the last piece. With the \<open>i\<close> flag a
  letter of the pattern matches both of its cases.
\<close>

definition to_lower :: "char \<Rightarrow> char" where
  "to_lower c = (let n = (of_char c :: nat) in if 65 \<le> n \<and> n \<le> 90 then char_of (n + 32) else c)"

text \<open>\<open>lit p s\<close>: the literal \<open>p\<close> (given in lower case) at the start of \<open>s\<close>, ignoring case.\<close>

fun lit :: "string \<Rightarrow> string \<Rightarrow> string option" where
  "lit [] s = Some s"
| "lit (p # ps) [] = None"
| "lit (p # ps) (c # cs) = (if to_lower c = p then lit ps cs else None)"

definition re_lit :: "string \<Rightarrow> string list \<Rightarrow> string list" where
  "re_lit p rs = List.map_filter (lit p) rs"

definition re_opt :: "string \<Rightarrow> string list \<Rightarrow> string list" where
  "re_opt p rs = re_lit p rs @ rs"

definition re_alt :: "string list \<Rightarrow> string list \<Rightarrow> string list" where
  "re_alt ps rs = concat (map (\<lambda>p. re_lit p rs) ps)"

text \<open>\<open>[\w-]\<close>: an ASCII letter, a digit, the underscore or the hyphen.\<close>

definition is_word_or_dash :: "char \<Rightarrow> bool" where
  "is_word_or_dash c =
     (let n = (of_char c :: nat)
      in (65 \<le> n \<and> n \<le> 90) \<or> (97 \<le> n \<and> n \<le> 122) \<or> (48 \<le> n \<and> n \<le> 57) \<or> n = 95 \<or> n = 45)"

text \<open>\<open>[\w-]+\<close>: the remainders after one or more characters of the class.\<close>

fun word_tails :: "string \<Rightarrow> string list" where
  "word_tails [] = []"
| "word_tails (c # cs) = (if is_word_or_dash c then cs # word_tails cs else [])"

definition re_word_plus :: "string list \<Rightarrow> string list" where
  "re_word_plus rs = concat (map word_tails rs)"

definition INSTAGRAM_URL_RE_test :: "string \<Rightarrow> bool" where
  "INSTAGRAM_URL_RE_test s =
     (re_opt ''/''
       (re_word_plus
         (re_lit ''/''
           (re_alt [''p'', ''reel'', ''tv'']
             (re_lit ''instagram.com/''
               (re_opt ''www.''
                 (re_lit ''://''
                   (re_opt ''s''
                     (re_lit ''http'' [s])))))))) \<noteq> [])"

subsection \<open>Application state, DOM, storage\<close>

text \<open>Commenter data returned by \<open>/api/fetch-comments\<close>; the controller never inspects it.\<close>

record commenter =
  username :: string
  comment_count :: int

record state =
  sessionId :: "string option"
  users :: "commenter list"
  totalComments :: int
  numWinners :: int
  minComments :: int
  winners :: "string list"

text \<open>The \<open>state\<close> literal the script starts with.\<close>

definition initial_state :: state where
  "initial_state =
     \<lparr>sessionId = None, users = [], totalComments = 0,
      numWinners = 1, minComments = 1, winners = []\<rparr>"

datatype screen = login | pasteLink | settings | searching | results

text \<open>An option button of the settings screen: \<open>data-setting\<close>, \<open>data-value\<close>, selected.\<close>

record option_btn =
  btn_setting :: string
  btn_value :: string
  btn_selected :: bool

text \<open>
  The elements the controller writes. An inline error paragraph is \<open>None\<close> when hidden
  with empty text (\<open>hideError\<close>) and \<open>Some message\<close> when shown (\<open>showError\<close>). A button
  is its loading flag (\<open>setButtonLoading\<close>). \<open>activeScreen\<close> is the section carrying
  \<open>screen--active\<close>, if any.
\<close>

record els =
  activeScreen :: "screen option"
  appLoadingHidden :: bool
  sessionCookieInput :: string
  loginError :: "string option"
  loginBtn :: bool
  urlInput :: string
  urlError :: "string option"
  fetchBtn :: bool
  fetchBtnLabel :: string
  settingsError :: "string option"
  runGiveawayBtn :: bool
  optionBtns :: "option_btn list"
  findingLabel :: string
  searchingPhaseHidden :: bool
  winnerRevealHidden :: bool
  countdown :: string
  revealCongrats :: string
  revealUsername :: string
  winnersList :: "string list"

subsection \<open>The backend as seen through \<open>fetch\<close>\<close>

datatype request =
    PostLogin string                          \<comment> \<open>\<open>/login {session_cookie}\<close>\<close>
  | PostLogout "string option"                \<comment> \<open>\<open>/logout {session_id}\<close>\<close>
  | PostValidateSession string                \<comment> \<open>\<open>/validate-session {session_id}\<close>\<close>
  | PostFetchComments string "string option"  \<comment> \<open>\<open>/fetch-comments {url, session_id}\<close>\<close>
  | PostPickWinners "commenter list" int int  \<comment> \<open>\<open>/pick-winners {users, num_winners, min_comments}\<close>\<close>

text \<open>
  A parsed JSON body, with the fields the controller reads: \<open>data.detail\<close> (absent is
  \<open>None\<close>), \<open>data.session_id\<close>, \<open>data.users\<close>, \<open>data.total_comments\<close>, \<open>data.winners\<close>. A
  body that parses is taken to be a JSON object whose fields have the types of the
  backend's contract.
\<close>

record data =
  data_detail :: "string option"
  data_session_id :: string
  data_users :: "commenter list"
  data_total_comments :: int
  data_winners :: "string list"

datatype json_result =
    Parsed data          \<comment> \<open>\<open>response.json()\<close> resolves\<close>
  | Unparsable string    \<comment> \<open>\<open>response.json()\<close> rejects, with this message\<close>

datatype response =
    Rejected string          \<comment> \<open>\<open>fetch\<close> rejects (network failure, abort), with this message\<close>
  | Replied nat json_result  \<comment> \<open>HTTP status and body\<close>

type_synonym server = "(request \<times> response) list \<Rightarrow> request \<Rightarrow> response"

text \<open>What a \<open>catch\<close> clause receives.\<close>

datatype js_error =
    ApiError string nat   \<comment> \<open>message, HTTP status\<close>
  | OtherError string     \<comment> \<open>any other error, with its message\<close>

fun message :: "js_error \<Rightarrow> string" where
  "message (ApiError m s) = m"
| "message (OtherError m) = m"

text \<open>\<open>err instanceof ApiError && err.status === 401\<close>\<close>

fun is_401 :: "js_error \<Rightarrow> bool" where
  "is_401 (ApiError m s) = (s = 401)"
| "is_401 (OtherError m) = False"

text \<open>One phase of the reveal animation that has run to its end.\<close>

datatype phase =
    is_Countdown: Countdown string          \<comment> \<open>label shown during the countdown\<close>
  | is_Reveal: Reveal string string string  \<comment> \<open>label, \<open>@username\<close>, congratulation shown\<close>

record world =
  st :: state
  localStorage :: "string \<rightharpoonup> string"
  ui :: els
  calls :: "(request \<times> response) list"
  phases :: "phase list"

subsection \<open>Helpers\<close>

definition navigateTo :: "screen \<Rightarrow> world \<Rightarrow> world" where
  "navigateTo target w = w\<lparr>ui := (ui w)\<lparr>appLoadingHidden := True, activeScreen := Some target\<rparr>\<rparr>"

text \<open>\<open>response.ok\<close>: the status is in the range 200 to 299.\<close>

definition response_ok :: "nat \<Rightarrow> bool" where
  "response_ok status = (200 \<le> status \<and> status \<le> 299)"

text \<open>
  What the promise of \<open>apiPost\<close> settles to, given what \<open>fetch\<close> did: \<open>Inl\<close> is the error
  thrown, \<open>Inr\<close> the parsed body returned.
\<close>

definition outcome :: "response \<Rightarrow> js_error + data" where
  "outcome resp =
     (case resp of
        Rejected m \<Rightarrow> Inl (OtherError m)
      | Replied status body \<Rightarrow>
          if \<not> response_ok status then
            (let d = (case body of Parsed b \<Rightarrow> data_detail b | Unparsable m \<Rightarrow> None);
                 detail = or_else d (''Request failed (HTTP '' @ string_of_nat status @ '')'')
             in Inl (ApiError detail status))
          else
            (case body of
               Parsed b \<Rightarrow> Inr b
             | Unparsable m \<Rightarrow> Inl (OtherError m)))"

definition apiPost :: "server \<Rightarrow> request \<Rightarrow> world \<Rightarrow> (js_error + data) \<times> world" where
  "apiPost srv req w =
     (let resp = srv (calls w) req
      in (outcome resp, w\<lparr>calls := calls w @ [(req, resp)]\<rparr>))"

definition saveCookie :: "string \<Rightarrow> world \<Rightarrow> world" where
  "saveCookie cookie w = w\<lparr>localStorage := (localStorage w)(COOKIE_STORAGE_KEY \<mapsto> cookie)\<rparr>"

definition getSavedCookie :: "world \<Rightarrow> string option" where
  "getSavedCookie w = localStorage w COOKIE_STORAGE_KEY"

definition clearSavedCookie :: "world \<Rightarrow> world" where
  "clearSavedCookie w = w\<lparr>localStorage := (localStorage w)(COOKIE_STORAGE_KEY := None)\<rparr>"

definition saveSessionId :: "string \<Rightarrow> world \<Rightarrow> world" where
  "saveSessionId sid w = w\<lparr>localStorage := (localStorage w)(SESSION_ID_STORAGE_KEY \<mapsto> sid)\<rparr>"

definition getSavedSessionId :: "world \<Rightarrow> string option" where
  "getSavedSessionId w = localStorage w SESSION_ID_STORAGE_KEY"

definition clearSavedSessionId :: "world \<Rightarrow> world" where
  "clearSavedSessionId w = w\<lparr>localStorage := (localStorage w)(SESSION_ID_STORAGE_KEY := None)\<rparr>"

definition set_sessionId :: "string option \<Rightarrow> world \<Rightarrow> world" where
  "set_sessionId v w = w\<lparr>st := (st w)\<lparr>sessionId := v\<rparr>\<rparr>"

subsection \<open>Session expiry and transparent re-authentication\<close>

definition tryReauthenticate :: "server \<Rightarrow> world \<Rightarrow> bool \<times> world" where
  "tryReauthenticate srv w =
     (case getSavedCookie w of
        None \<Rightarrow> (False, w)
      | Some savedCookie \<Rightarrow>
          if savedCookie = [] then (False, w)
          else
            (case apiPost srv (PostLogin savedCookie) w of
               (Inr d, w1) \<Rightarrow>
                 (True, saveSessionId (data_session_id d) (set_sessionId (Some (data_session_id d)) w1))
             | (Inl err, w1) \<Rightarrow>
                 if is_401 err then (False, clearSavedSessionId (clearSavedCookie w1))
                 else (False, w1)))"

definition redirectToLogin :: "string \<Rightarrow> world \<Rightarrow> world" where
  "redirectToLogin msg w =
     (let w1 = set_sessionId None w;
          w2 = clearSavedSessionId w1;
          w3 = navigateTo login w2
      in w3\<lparr>ui := (ui w3)\<lparr>loginError := Some msg\<rparr>\<rparr>)"

datatype expiry_result = not_session_error | reauthenticated | redirected

definition handleSessionExpiry :: "server \<Rightarrow> js_error \<Rightarrow> world \<Rightarrow> expiry_result \<times> world" where
  "handleSessionExpiry srv err w =
     (if \<not> is_401 err then (not_session_error, w)
      else
        (case tryReauthenticate srv w of
           (True, w1) \<Rightarrow> (reauthenticated, w1)
         | (False, w1) \<Rightarrow>
             (redirected,
              redirectToLogin
                (if truthy (getSavedCookie w1)
                 then ''Could not reconnect to Instagram. Please try again.''
                 else ''Your session cookie has expired. Please paste a new one.'')
                w1)))"

subsection \<open>Screen 0: login and logout\<close>

definition set_ui :: "(els \<Rightarrow> els) \<Rightarrow> world \<Rightarrow> world" where
  "set_ui f w = w\<lparr>ui := f (ui w)\<rparr>"

definition handleLogin :: "server \<Rightarrow> world \<Rightarrow> world" where
  "handleLogin srv w =
     (let w0 = set_ui (\<lambda>u. u\<lparr>loginError := None\<rparr>) w;
          sessionCookie = trim (sessionCookieInput (ui w0))
      in if sessionCookie = [] then
           set_ui (\<lambda>u. u\<lparr>loginError := Some ''Please paste your Instagram session cookie.''\<rparr>) w0
         else
           (let w1 = set_ui (\<lambda>u. u\<lparr>loginBtn := True\<rparr>) w0;
                w2 = (case apiPost srv (PostLogin sessionCookie) w1 of
                        (Inr d, wa) \<Rightarrow>
                          navigateTo pasteLink
                            (set_ui (\<lambda>u. u\<lparr>sessionCookieInput := []\<rparr>)
                              (saveSessionId (data_session_id d)
                                (saveCookie sessionCookie
                                  (set_sessionId (Some (data_session_id d)) wa))))
                      | (Inl err, wa) \<Rightarrow>
                          set_ui (\<lambda>u. u\<lparr>loginError := Some (message err)\<rparr>) wa)
            in set_ui (\<lambda>u. u\<lparr>loginBtn := False\<rparr>) w2))"

definition handleLogout :: "server \<Rightarrow> world \<Rightarrow> world" where
  "handleLogout srv w =
     (let w1 = (if truthy (sessionId (st w))
                then snd (apiPost srv (PostLogout (sessionId (st w))) w)
                else w)
      in navigateTo login (clearSavedSessionId (clearSavedCookie (set_sessionId None w1))))"

subsection \<open>Screen 1: paste link\<close>

text \<open>The body of both \<open>try\<close> blocks after a successful \<open>/fetch-comments\<close>.\<close>

definition store_comments :: "data \<Rightarrow> world \<Rightarrow> world" where
  "store_comments d w =
     navigateTo settings
       (w\<lparr>st := (st w)\<lparr>users := data_users d, totalComments := data_total_comments d\<rparr>\<rparr>)"

definition handleFetchComments :: "server \<Rightarrow> world \<Rightarrow> world" where
  "handleFetchComments srv w =
     (let w0 = set_ui (\<lambda>u. u\<lparr>urlError := None\<rparr>) w;
          url = trim (urlInput (ui w0))
      in if url = [] then
           set_ui (\<lambda>u. u\<lparr>urlError := Some ''Please paste an Instagram link.''\<rparr>) w0
         else if \<not> INSTAGRAM_URL_RE_test url then
           set_ui (\<lambda>u. u\<lparr>urlError := Some ''That doesn't look like a valid Instagram post URL.''\<rparr>) w0
         else
           (let originalText = fetchBtnLabel (ui w0);
                w1 = set_ui (\<lambda>u. u\<lparr>fetchBtn := True, fetchBtnLabel := ''FETCHING...''\<rparr>) w0;
                w2 = (case apiPost srv (PostFetchComments url (sessionId (st w1))) w1 of
                        (Inr d, wa) \<Rightarrow> store_comments d wa
                      | (Inl err, wa) \<Rightarrow>
                          (case handleSessionExpiry srv err wa of
                             (reauthenticated, wb) \<Rightarrow>
                               (case apiPost srv (PostFetchComments url (sessionId (st wb))) wb of
                                  (Inr d, wc) \<Rightarrow> store_comments d wc
                                | (Inl retryErr, wc) \<Rightarrow>
                                    set_ui (\<lambda>u. u\<lparr>urlError := Some (message retryErr)\<rparr>) wc)
                           | (not_session_error, wb) \<Rightarrow>
                               set_ui (\<lambda>u. u\<lparr>urlError := Some (message err)\<rparr>) wb
                           | (redirected, wb) \<Rightarrow> wb))
            in set_ui (\<lambda>u. u\<lparr>fetchBtnLabel := originalText, fetchBtn := False\<rparr>) w2))"

subsection \<open>Screen 3: searching animation\<close>

text \<open>
  JavaScript numbers are IEEE 754 doubles: 53 significant bits, rounding to nearest
  with ties to the even significand. For a positive real \<open>x\<close> with leading bit
  \<open>2 ^ e\<close>, the doubles around \<open>x\<close> are the multiples of \<open>2 ^ (e - 52)\<close>; below
  \<open>2 ^ -1022\<close> the spacing stays at \<open>2 ^ -1074\<close>. \<open>round_double x\<close> is the double that
  an operation with exact result \<open>x \<ge> 0\<close> returns (overflow, which needs
  \<open>x \<ge> 2 ^ 1024\<close>, is not modelled), and a non-negative real is a double when
  rounding leaves it as it is.
\<close>

definition spacing :: "real \<Rightarrow> real" where
  "spacing x = 2 powr (real_of_int (max \<lfloor>log 2 x\<rfloor> (- 1022)) - 52)"

definition round_double :: "real \<Rightarrow> real" where
  "round_double x =
     (if x = 0 then 0
      else
        (let q = x / spacing x;
             n = \<lfloor>q\<rfloor>
         in if q - of_int n < 1 / 2 then of_int n * spacing x
            else if 1 / 2 < q - of_int n then (of_int n + 1) * spacing x
            else if even n then of_int n * spacing x
            else (of_int n + 1) * spacing x))"


text \<open>\<open>a * b\<close> on two non-negative doubles.\<close>

definition double_times :: "real \<Rightarrow> real \<Rightarrow> real" where
  "double_times a b = round_double (a * b)"

text \<open>
  \<open>shuffleCongratsMessages\<close>: Fisher-Yates over a copy of the catalogue. \<open>rnd k\<close> is the
  value of the \<open>k\<close>-th call of \<open>Math.random()\<close>, which the language specifies to be a
  double in \<open>[0, 1)\<close>. In \<open>j = Math.floor(Math.random() * (i + 1))\<close> the product is
  rounded to a double and then floored; \<open>i + 1\<close> is a small integer, hence exact. The
  swap \<open>[pool[i], pool[j]] = [pool[j], pool[i]]\<close> reads both cells, then writes
  \<open>pool[i]\<close>, then \<open>pool[j]\<close>.
\<close>

fun shuffle_loop :: "(nat \<Rightarrow> real) \<Rightarrow> nat \<Rightarrow> nat \<Rightarrow> string list \<Rightarrow> string list" where
  "shuffle_loop rnd k 0 pool = pool"
| "shuffle_loop rnd k (Suc n) pool =
     (let i = Suc n;
          j = nat \<lfloor>double_times (rnd k) (real (i + 1))\<rfloor>
      in shuffle_loop rnd (Suc k) n (pool[i := pool ! j, j := pool ! i]))"

definition shuffleCongratsMessages :: "(nat \<Rightarrow> real) \<Rightarrow> string list" where
  "shuffleCongratsMessages rnd =
     shuffle_loop rnd 0 (length CONGRATS_MESSAGES - 1) CONGRATS_MESSAGES"

definition showSearchingPhase :: "world \<Rightarrow> world" where
  "showSearchingPhase w = set_ui (\<lambda>u. u\<lparr>searchingPhaseHidden := False, winnerRevealHidden := True\<rparr>) w"

definition showRevealPhase :: "string \<Rightarrow> string \<Rightarrow> world \<Rightarrow> world" where
  "showRevealPhase uname congratsText w =
     set_ui (\<lambda>u. u\<lparr>searchingPhaseHidden := True,
                   revealCongrats := congratsText,
                   revealUsername := CHR ''@'' # uname,
                   winnerRevealHidden := False\<rparr>) w"

text \<open>
  The two timed suspensions. \<open>animateCountdown\<close> shows the number of seconds and then,
  once per second, the interval callback decrements it and shows it again, until it
  reaches zero and the promise resolves; the model then records a countdown phase with
  the label on screen. \<open>wait\<close> is only used to hold a reveal; the model records a reveal
  phase with what the reveal panel shows meanwhile. The progress arc (floating-point
  offsets) and the timers themselves are not modelled.
\<close>

text \<open>\<open>String(n).padStart(2, "0")\<close>\<close>

definition pad2 :: "string \<Rightarrow> string" where
  "pad2 s = replicate (2 - length s) CHR ''0'' @ s"

text \<open>The interval callback, fired until \<open>remaining\<close> has gone from the given value to zero.\<close>

fun countdown_ticks :: "nat \<Rightarrow> world \<Rightarrow> world" where
  "countdown_ticks 0 w = w"
| "countdown_ticks (Suc remaining) w =
     countdown_ticks remaining
       (set_ui (\<lambda>u. u\<lparr>countdown := pad2 (string_of_nat remaining)\<rparr>) w)"

definition animateCountdown :: "world \<Rightarrow> world" where
  "animateCountdown w =
     (let w1 = set_ui (\<lambda>u. u\<lparr>countdown := pad2 (string_of_nat COUNTDOWN_SECONDS)\<rparr>) w;
          w2 = countdown_ticks COUNTDOWN_SECONDS w1
      in w2\<lparr>phases := phases w2 @ [Countdown (findingLabel (ui w2))]\<rparr>)"

definition wait :: "nat \<Rightarrow> world \<Rightarrow> world" where
  "wait seconds w =
     w\<lparr>phases := phases w @
         [Reveal (findingLabel (ui w)) (revealUsername (ui w)) (revealCongrats (ui w))]\<rparr>"

text \<open>The body of the \<open>for\<close> loop of \<open>runSearchingAnimation\<close>, at index \<open>i\<close>.\<close>

definition reveal_step :: "string list \<Rightarrow> string list \<Rightarrow> world \<Rightarrow> nat \<Rightarrow> world" where
  "reveal_step congratsPool ws w i =
     (let w1 = showSearchingPhase w;
          w2 = set_ui (\<lambda>u. u\<lparr>findingLabel := ''FINDING WINNER '' @ string_of_nat (i + 1)\<rparr>) w1;
          w3 = animateCountdown w2;
          congrats = congratsPool ! (i mod length congratsPool);
          w4 = set_ui (\<lambda>u. u\<lparr>findingLabel := ''WINNER '' @ string_of_nat (i + 1)\<rparr>) w3;
          w5 = showRevealPhase (ws ! i) congrats w4
      in wait WINNER_REVEAL_SECONDS w5)"

definition runSearchingAnimation :: "(nat \<Rightarrow> real) \<Rightarrow> string list \<Rightarrow> world \<Rightarrow> world" where
  "runSearchingAnimation rnd ws w =
     (let congratsPool = shuffleCongratsMessages rnd
      in showSearchingPhase (foldl (reveal_step congratsPool ws) w [0..<length ws]))"

subsection \<open>Screens 2 and 4: run giveaway, results, run again\<close>

definition showResults :: "string list \<Rightarrow> world \<Rightarrow> world" where
  "showResults ws w =
     navigateTo results (set_ui (\<lambda>u. u\<lparr>winnersList := map (\<lambda>uname. CHR ''@'' # uname) ws\<rparr>) w)"

definition handleRunGiveaway :: "server \<Rightarrow> (nat \<Rightarrow> real) \<Rightarrow> world \<Rightarrow> world" where
  "handleRunGiveaway srv rnd w =
     (let w0 = set_ui (\<lambda>u. u\<lparr>settingsError := None, runGiveawayBtn := True\<rparr>) w;
          w1 = (case apiPost srv
                       (PostPickWinners (users (st w0)) (numWinners (st w0)) (minComments (st w0))) w0 of
                  (Inr d, wa) \<Rightarrow>
                    (let wb = wa\<lparr>st := (st wa)\<lparr>winners := data_winners d\<rparr>\<rparr>;
                         wc = runSearchingAnimation rnd (winners (st wb)) (navigateTo searching wb)
                     in showResults (winners (st wc)) wc)
                | (Inl err, wa) \<Rightarrow>
                    set_ui (\<lambda>u. u\<lparr>settingsError := Some (message err)\<rparr>) wa)
      in set_ui (\<lambda>u. u\<lparr>runGiveawayBtn := False\<rparr>) w1)"


subsection \<open>Start-up\<close>

text \<open>
  The session restore of \<open>init\<close> (the event binding before it changes nothing here).
  \<open>init_tier2\<close> is the part from the tier-2 comment on, entered when tier 1 was skipped
  or failed; \<open>savedCookie\<close> was read before tier 1.
\<close>

definition init_tier2 :: "server \<Rightarrow> string option \<Rightarrow> world \<Rightarrow> world" where
  "init_tier2 srv savedCookie w =
     (if truthy savedCookie then
        (case apiPost srv (PostLogin (the savedCookie)) w of
           (Inr d, wa) \<Rightarrow>
             navigateTo pasteLink
               (saveSessionId (data_session_id d) (set_sessionId (Some (data_session_id d)) wa))
         | (Inl err, wa) \<Rightarrow>
             if is_401 err then
               set_ui (\<lambda>u. u\<lparr>loginError := Some ''Your saved session has expired. Please paste a new cookie.''\<rparr>)
                 (navigateTo login (clearSavedSessionId (clearSavedCookie wa)))
             else navigateTo login wa)
      else navigateTo login w)"

definition init :: "server \<Rightarrow> world \<Rightarrow> world" where
  "init srv w =
     (let savedSessionId = getSavedSessionId w;
          savedCookie = getSavedCookie w
      in if truthy savedSessionId then
           (case apiPost srv (PostValidateSession (the savedSessionId)) w of
              (Inr d, wa) \<Rightarrow> navigateTo pasteLink (set_sessionId savedSessionId wa)
            | (Inl err, wa) \<Rightarrow> init_tier2 srv savedCookie (clearSavedSessionId wa))
         else init_tier2 srv savedCookie w)"

text \<open>
  A page load: the script starts from its \<open>state\<close> literal and the page's own markup
  \<open>page\<close>, then runs \<open>init()\<close>. \<open>localStorage\<close> survives; \<open>calls\<close> and \<open>phases\<close> keep
  accumulating, as the observer's record. \<open>startups n\<close> is \<open>n\<close> page loads in a row.
\<close>

definition startup :: "server \<Rightarrow> els \<Rightarrow> world \<Rightarrow> world" where
  "startup srv page w = init srv (w\<lparr>st := initial_state, ui := page\<rparr>)"

fun startups :: "server \<Rightarrow> els \<Rightarrow> nat \<Rightarrow> world \<Rightarrow> world" where
  "startups srv page 0 w = w"
| "startups srv page (Suc n) w = startups srv page n (startup srv page w)"

subsection \<open>Observations\<close>

text \<open>The world after \<open>apiPost\<close> has settled: the call and its response are on the log.\<close>

definition called :: "server \<Rightarrow> request \<Rightarrow> world \<Rightarrow> world" where
  "called srv req w = w\<lparr>calls := calls w @ [(req, srv (calls w) req)]\<rparr>"

text \<open>The calls made, and the animation phases run, between two worlds.\<close>

definition new_calls :: "world \<Rightarrow> world \<Rightarrow> (request \<times> response) list" where
  "new_calls w w' = drop (length (calls w)) (calls w')"


text \<open>
  An explicit unauthorized response: one that \<open>apiPost\<close> turns into an \<open>ApiError\<close> with
  status 401.
\<close>

definition unauthorized :: "response \<Rightarrow> bool" where
  "unauthorized r = (case outcome r of Inl err \<Rightarrow> is_401 err | Inr d \<Rightarrow> False)"

text \<open>
  The world in which the first \<open>/fetch-comments\<close> call of a well-formed submission has
  been answered: the error is cleared, the button shows its loading state.
\<close>

definition fetching :: "server \<Rightarrow> world \<Rightarrow> world" where
  "fetching srv w =
     called srv (PostFetchComments (trim (urlInput (ui w))) (sessionId (st w)))
       (set_ui (\<lambda>u. u\<lparr>fetchBtn := True, fetchBtnLabel := ''FETCHING...''\<rparr>)
         (set_ui (\<lambda>u. u\<lparr>urlError := None\<rparr>) w))"

text \<open>
  The run states of the specification's state machine. The script keeps no such
  variable; \<open>RunState_of\<close> reads the state off what the script does keep: a request is
  awaited while its button shows the loading state, and otherwise the active screen
  tells. The login and paste-link screens, and a page with no active screen yet, are
  \<open>Idle\<close>.
\<close>

datatype RunState = Idle | AwaitingComments | Settings | AwaitingSelection | Revealing | Results

definition RunState_of :: "world \<Rightarrow> RunState" where
  "RunState_of w =
     (if fetchBtn (ui w) then AwaitingComments
      else if runGiveawayBtn (ui w) \<and> activeScreen (ui w) = Some settings then AwaitingSelection
      else (case activeScreen (ui w) of
              Some settings \<Rightarrow> Settings
            | Some searching \<Rightarrow> Revealing
            | Some results \<Rightarrow> Results
            | _ \<Rightarrow> Idle))"

subsection \<open>Sample pages, backends and worlds\<close>

text \<open>Concrete values on which the theorems below are run.\<close>

definition sample_page :: els where
  "sample_page =
     \<lparr>activeScreen = None, appLoadingHidden = False,
      sessionCookieInput = [], loginError = None, loginBtn = False,
      urlInput = [], urlError = None, fetchBtn = False, fetchBtnLabel = ''FETCH COMMENTS'',
      settingsError = None, runGiveawayBtn = False,
      optionBtns =
        [\<lparr>btn_setting = ''num-winners'', btn_value = ''1'', btn_selected = True\<rparr>,
         \<lparr>btn_setting = ''num-winners'', btn_value = ''2'', btn_selected = False\<rparr>,
         \<lparr>btn_setting = ''min-comments'', btn_value = ''1'', btn_selected = True\<rparr>,
         \<lparr>btn_setting = ''min-comments'', btn_value = ''2'', btn_selected = False\<rparr>],
      findingLabel = [], searchingPhaseHidden = False, winnerRevealHidden = True,
      countdown = ''05'', revealCongrats = [], revealUsername = [], winnersList = []\<rparr>"

definition sample_body :: data where
  "sample_body =
     \<lparr>data_detail = None, data_session_id = ''session-2'', data_users = [],
      data_total_comments = 0, data_winners = []\<rparr>"

text \<open>A first visit: nothing stored.\<close>

definition first_visit :: world where
  "first_visit =
     \<lparr>st = initial_state, localStorage = Map.empty, ui = sample_page, calls = [], phases = []\<rparr>"

text \<open>A returning visitor: both keys stored by an earlier login.\<close>

definition returning_visit :: world where
  "returning_visit =
     first_visit\<lparr>localStorage :=
       [COOKIE_STORAGE_KEY \<mapsto> ''cookie-1'', SESSION_ID_STORAGE_KEY \<mapsto> ''session-1'']\<rparr>"

text \<open>Logged in, on the paste-link screen, with a post link typed in.\<close>

definition link_pasted :: world where
  "link_pasted =
     returning_visit
       \<lparr>st := initial_state\<lparr>sessionId := Some ''session-1''\<rparr>,
        ui := sample_page\<lparr>activeScreen := Some pasteLink, appLoadingHidden := True,
                          urlInput := '' https://www.instagram.com/p/Cabc123/''\<rparr>\<rparr>"



text \<open>The backend cannot be reached.\<close>

definition offline :: server where
  "offline hist req = Rejected ''Failed to fetch''"

text \<open>The backend accepts every request.\<close>

definition healthy :: server where
  "healthy hist req = Replied 200 (Parsed sample_body)"

text \<open>
  The backend has lost \<open>session-1\<close>: it answers 401 to \<open>/fetch-comments\<close> until a new
  login has issued \<open>session-2\<close>.
\<close>

definition session_lost :: server where
  "session_lost hist req =
     (case req of
        PostFetchComments u sid \<Rightarrow>
          if sid = Some ''session-2''
          then Replied 200 (Parsed (sample_body
                 \<lparr>data_users := [\<lparr>username = ''alice'', comment_count = 2\<rparr>],
                  data_total_comments := 2\<rparr>))
          else Replied 401 (Parsed (sample_body\<lparr>data_detail := Some ''Session expired''\<rparr>))
      | PostLogin c \<Rightarrow> Replied 200 (Parsed sample_body)
      | _ \<Rightarrow> Rejected ''Failed to fetch'')"

text \<open>The backend answers 401 to everything, with a body that is not JSON.\<close>

definition revoked :: server where
  "revoked hist req = Replied 401 (Unparsable ''Unexpected end of JSON input'')"

text \<open>
  A double in \<open>[1/2, 1)\<close> whose exact product with 7 is \<open>4 - 2 ^ -52\<close>, halfway between
  the doubles \<open>4 - 2 ^ -51\<close> and \<open>4\<close>; and a run of \<open>Math.random()\<close> that returns it at
  its fourth call and zero otherwise.
\<close>

definition tie_value :: real where
  "tie_value = 2573485501354569 / 2 ^ 52"


subsection \<open>Basic facts\<close>

lemma keys_distinct [simp]:
  "COOKIE_STORAGE_KEY \<noteq> SESSION_ID_STORAGE_KEY" "SESSION_ID_STORAGE_KEY \<noteq> COOKIE_STORAGE_KEY"
  by (simp_all add: COOKIE_STORAGE_KEY_def SESSION_ID_STORAGE_KEY_def)

lemmas world_defs =
  set_ui_def navigateTo_def saveCookie_def getSavedCookie_def clearSavedCookie_def
  saveSessionId_def getSavedSessionId_def clearSavedSessionId_def set_sessionId_def
  apiPost_def

lemma new_calls_append [simp]: "calls w' = calls w @ xs \<Longrightarrow> new_calls w w' = xs"
  by (simp add: new_calls_def)

lemma new_calls_same [simp]: "calls w' = calls w \<Longrightarrow> new_calls w w' = []"
  by (simp add: new_calls_def)

lemma tryReauthenticate_no_cookie:
  "\<not> truthy (getSavedCookie w) \<Longrightarrow> tryReauthenticate srv w = (False, w)"
  by (simp add: tryReauthenticate_def truthy_def split: option.splits)

lemma tryReauthenticate_ok:
  "getSavedCookie w = Some c \<Longrightarrow> c \<noteq> [] \<Longrightarrow> outcome (srv (calls w) (PostLogin c)) = Inr d \<Longrightarrow>
   tryReauthenticate srv w =
     (True, saveSessionId (data_session_id d) (set_sessionId (Some (data_session_id d))
              (w\<lparr>calls := calls w @ [(PostLogin c, srv (calls w) (PostLogin c))]\<rparr>)))"
  by (simp add: tryReauthenticate_def apiPost_def)

lemma tryReauthenticate_401:
  "getSavedCookie w = Some c \<Longrightarrow> c \<noteq> [] \<Longrightarrow> outcome (srv (calls w) (PostLogin c)) = Inl err \<Longrightarrow>
   is_401 err \<Longrightarrow>
   tryReauthenticate srv w =
     (False, clearSavedSessionId (clearSavedCookie
              (w\<lparr>calls := calls w @ [(PostLogin c, srv (calls w) (PostLogin c))]\<rparr>)))"
  by (simp add: tryReauthenticate_def apiPost_def)

lemma tryReauthenticate_transient:
  "getSavedCookie w = Some c \<Longrightarrow> c \<noteq> [] \<Longrightarrow> outcome (srv (calls w) (PostLogin c)) = Inl err \<Longrightarrow>
   \<not> is_401 err \<Longrightarrow>
   tryReauthenticate srv w =
     (False, w\<lparr>calls := calls w @ [(PostLogin c, srv (calls w) (PostLogin c))]\<rparr>)"
  by (simp add: tryReauthenticate_def apiPost_def)

lemma tryReauthenticate_cookie:
  assumes "\<forall>c r. (PostLogin c, r) \<in> set (new_calls w (snd (tryReauthenticate srv w))) \<longrightarrow> \<not> unauthorized r"
  shows "getSavedCookie (snd (tryReauthenticate srv w)) = getSavedCookie w"
proof (cases "truthy (getSavedCookie w)")
  case False
  then show ?thesis by (simp add: tryReauthenticate_no_cookie)
next
  case True
  then obtain c where c: "getSavedCookie w = Some c" "c \<noteq> []"
    by (auto simp add: truthy_def split: option.splits)
  let ?r = "srv (calls w) (PostLogin c)"
  show ?thesis
  proof (cases "outcome ?r")
    case (Inr d)
    show ?thesis
      unfolding tryReauthenticate_ok[where srv = srv, OF c Inr]
      by (simp add: world_defs)
  next
    case (Inl err)
    show ?thesis
    proof (cases "is_401 err")
      case False
      show ?thesis
        unfolding tryReauthenticate_transient[where srv = srv, OF c Inl False]
        by (simp add: world_defs)
    next
      case True
      have "unauthorized ?r" using Inl True by (simp add: unauthorized_def)
      moreover have "new_calls w (snd (tryReauthenticate srv w)) = [(PostLogin c, ?r)]"
        unfolding tryReauthenticate_401[where srv = srv, OF c Inl True]
        by (simp add: world_defs)
      ultimately show ?thesis using assms by simp
    qed
  qed
qed

lemma apiPost_called: "apiPost srv req w = (outcome (srv (calls w) req), called srv req w)"
  by (simp add: apiPost_def called_def Let_def)

lemma called_simps [simp]:
  "st (called srv req w) = st w"
  "ui (called srv req w) = ui w"
  "localStorage (called srv req w) = localStorage w"
  "phases (called srv req w) = phases w"
  "calls (called srv req w) = calls w @ [(req, srv (calls w) req)]"
  by (simp_all add: called_def)

lemma set_ui_simps [simp]:
  "st (set_ui f w) = st w"
  "ui (set_ui f w) = f (ui w)"
  "localStorage (set_ui f w) = localStorage w"
  "phases (set_ui f w) = phases w"
  "calls (set_ui f w) = calls w"
  by (simp_all add: set_ui_def)

lemma navigateTo_simps [simp]:
  "st (navigateTo t w) = st w"
  "ui (navigateTo t w) = (ui w)\<lparr>appLoadingHidden := True, activeScreen := Some t\<rparr>"
  "localStorage (navigateTo t w) = localStorage w"
  "phases (navigateTo t w) = phases w"
  "calls (navigateTo t w) = calls w"
  by (simp_all add: navigateTo_def)

lemma set_sessionId_simps [simp]:
  "st (set_sessionId v w) = (st w)\<lparr>sessionId := v\<rparr>"
  "ui (set_sessionId v w) = ui w"
  "localStorage (set_sessionId v w) = localStorage w"
  "phases (set_sessionId v w) = phases w"
  "calls (set_sessionId v w) = calls w"
  by (simp_all add: set_sessionId_def)

lemma saveCookie_simps [simp]:
  "st (saveCookie c w) = st w"
  "ui (saveCookie c w) = ui w"
  "localStorage (saveCookie c w) = (localStorage w)(COOKIE_STORAGE_KEY \<mapsto> c)"
  "phases (saveCookie c w) = phases w"
  "calls (saveCookie c w) = calls w"
  by (simp_all add: saveCookie_def)

lemma clearSavedCookie_simps [simp]:
  "st (clearSavedCookie w) = st w"
  "ui (clearSavedCookie w) = ui w"
  "localStorage (clearSavedCookie w) = (localStorage w)(COOKIE_STORAGE_KEY := None)"
  "phases (clearSavedCookie w) = phases w"
  "calls (clearSavedCookie w) = calls w"
  by (simp_all add: clearSavedCookie_def)

lemma saveSessionId_simps [simp]:
  "st (saveSessionId c w) = st w"
  "ui (saveSessionId c w) = ui w"
  "localStorage (saveSessionId c w) = (localStorage w)(SESSION_ID_STORAGE_KEY \<mapsto> c)"
  "phases (saveSessionId c w) = phases w"
  "calls (saveSessionId c w) = calls w"
  by (simp_all add: saveSessionId_def)

lemma clearSavedSessionId_simps [simp]:
  "st (clearSavedSessionId w) = st w"
  "ui (clearSavedSessionId w) = ui w"
  "localStorage (clearSavedSessionId w) = (localStorage w)(SESSION_ID_STORAGE_KEY := None)"
  "phases (clearSavedSessionId w) = phases w"
  "calls (clearSavedSessionId w) = calls w"
  by (simp_all add: clearSavedSessionId_def)

lemma init_tier2_no_cookie:
  "\<not> truthy sc \<Longrightarrow> init_tier2 srv sc w = navigateTo login w"
  by (simp add: init_tier2_def)

lemma init_tier2_ok:
  "sc = Some c \<Longrightarrow> c \<noteq> [] \<Longrightarrow> outcome (srv (calls w) (PostLogin c)) = Inr d \<Longrightarrow>
   init_tier2 srv sc w =
     navigateTo pasteLink (saveSessionId (data_session_id d)
       (set_sessionId (Some (data_session_id d)) (called srv (PostLogin c) w)))"
  by (simp add: init_tier2_def apiPost_called truthy_def)

lemma init_tier2_401:
  "sc = Some c \<Longrightarrow> c \<noteq> [] \<Longrightarrow> outcome (srv (calls w) (PostLogin c)) = Inl err \<Longrightarrow>
   is_401 err \<Longrightarrow>
   init_tier2 srv sc w =
     set_ui (\<lambda>u. u\<lparr>loginError := Some ''Your saved session has expired. Please paste a new cookie.''\<rparr>)
       (navigateTo login (clearSavedSessionId (clearSavedCookie (called srv (PostLogin c) w))))"
  by (simp add: init_tier2_def apiPost_called truthy_def)

lemma init_tier2_transient:
  "sc = Some c \<Longrightarrow> c \<noteq> [] \<Longrightarrow> outcome (srv (calls w) (PostLogin c)) = Inl err \<Longrightarrow>
   \<not> is_401 err \<Longrightarrow>
   init_tier2 srv sc w = navigateTo login (called srv (PostLogin c) w)"
  by (simp add: init_tier2_def apiPost_called truthy_def)

lemma init_no_session:
  "\<not> truthy (getSavedSessionId w) \<Longrightarrow> init srv w = init_tier2 srv (getSavedCookie w) w"
  by (simp add: init_def)

lemma init_validated:
  "getSavedSessionId w = Some h \<Longrightarrow> h \<noteq> [] \<Longrightarrow>
   outcome (srv (calls w) (PostValidateSession h)) = Inr d \<Longrightarrow>
   init srv w = navigateTo pasteLink (set_sessionId (Some h) (called srv (PostValidateSession h) w))"
  by (simp add: init_def apiPost_called truthy_def)

lemma init_not_validated:
  "getSavedSessionId w = Some h \<Longrightarrow> h \<noteq> [] \<Longrightarrow>
   outcome (srv (calls w) (PostValidateSession h)) = Inl err \<Longrightarrow>
   init srv w =
     init_tier2 srv (getSavedCookie w) (clearSavedSessionId (called srv (PostValidateSession h) w))"
  by (simp add: init_def apiPost_called truthy_def)

lemma truthyE: "truthy v \<Longrightarrow> (\<And>s. v = Some s \<Longrightarrow> s \<noteq> [] \<Longrightarrow> P) \<Longrightarrow> P"
  by (auto simp add: truthy_def split: option.splits)

lemma init_tier2_effect:
  "(getSavedCookie (init_tier2 srv sc w) = getSavedCookie w \<and>
      (\<forall>c r. (PostLogin c, r) \<in> set (new_calls w (init_tier2 srv sc w)) \<longrightarrow> \<not> unauthorized r) \<and>
      (\<exists>xs. calls (init_tier2 srv sc w) = calls w @ xs)) \<or>
   (getSavedCookie (init_tier2 srv sc w) = None \<and>
      (\<exists>c. sc = Some c \<and> c \<noteq> [] \<and> unauthorized (srv (calls w) (PostLogin c)) \<and>
            calls (init_tier2 srv sc w) = calls w @ [(PostLogin c, srv (calls w) (PostLogin c))]))"
proof (cases "truthy sc")
  case False
  then show ?thesis by (simp add: init_tier2_no_cookie getSavedCookie_def)
next
  case True
  then obtain c where c: "sc = Some c" "c \<noteq> []" by (rule truthyE)
  let ?r = "srv (calls w) (PostLogin c)"
  show ?thesis
  proof (cases "outcome ?r")
    case (Inr d)
    have "calls (init_tier2 srv sc w) = calls w @ [(PostLogin c, ?r)]"
      and "getSavedCookie (init_tier2 srv sc w) = getSavedCookie w"
      unfolding init_tier2_ok[where srv = srv, OF c Inr] by (simp_all add: getSavedCookie_def)
    moreover have "\<not> unauthorized ?r" using Inr by (simp add: unauthorized_def)
    ultimately show ?thesis by simp
  next
    case (Inl err)
    show ?thesis
    proof (cases "is_401 err")
      case False
      have "calls (init_tier2 srv sc w) = calls w @ [(PostLogin c, ?r)]"
        and "getSavedCookie (init_tier2 srv sc w) = getSavedCookie w"
        unfolding init_tier2_transient[where srv = srv, OF c Inl False] by (simp_all add: getSavedCookie_def)
      moreover have "\<not> unauthorized ?r" using Inl False by (simp add: unauthorized_def)
      ultimately show ?thesis by simp
    next
      case True
      have "calls (init_tier2 srv sc w) = calls w @ [(PostLogin c, ?r)]"
        and "getSavedCookie (init_tier2 srv sc w) = None"
        unfolding init_tier2_401[where srv = srv, OF c Inl True] by (simp_all add: getSavedCookie_def)
      moreover have "unauthorized ?r" using Inl True by (simp add: unauthorized_def)
      ultimately show ?thesis using c by simp
    qed
  qed
qed

lemma new_calls_trans:
  "calls w1 = calls w @ ys \<Longrightarrow> calls w2 = calls w1 @ xs \<Longrightarrow> new_calls w w2 = ys @ new_calls w1 w2"
  by (simp add: new_calls_def)

lemma init_cookie:
  assumes "\<forall>c r. (PostLogin c, r) \<in> set (new_calls w (init srv w)) \<longrightarrow> \<not> unauthorized r"
  shows "getSavedCookie (init srv w) = getSavedCookie w"
proof -
  have tier2: "getSavedCookie (init_tier2 srv sc w1) = getSavedCookie w"
    if w1: "getSavedCookie w1 = getSavedCookie w" "calls w1 = calls w @ ys"
      and i: "init srv w = init_tier2 srv sc w1" for sc w1 ys
  proof -
    from init_tier2_effect[of srv sc w1] show ?thesis
    proof
      assume "getSavedCookie (init_tier2 srv sc w1) = getSavedCookie w1 \<and>
        (\<forall>c r. (PostLogin c, r) \<in> set (new_calls w1 (init_tier2 srv sc w1)) \<longrightarrow> \<not> unauthorized r) \<and>
        (\<exists>xs. calls (init_tier2 srv sc w1) = calls w1 @ xs)"
      then show ?thesis using w1(1) by simp
    next
      assume "getSavedCookie (init_tier2 srv sc w1) = None \<and>
        (\<exists>c. sc = Some c \<and> c \<noteq> [] \<and> unauthorized (srv (calls w1) (PostLogin c)) \<and>
            calls (init_tier2 srv sc w1) = calls w1 @ [(PostLogin c, srv (calls w1) (PostLogin c))])"
      then obtain c where c: "unauthorized (srv (calls w1) (PostLogin c))"
        "calls (init_tier2 srv sc w1) = calls w1 @ [(PostLogin c, srv (calls w1) (PostLogin c))]"
        by blast
      have "new_calls w (init srv w) = ys @ [(PostLogin c, srv (calls w1) (PostLogin c))]"
        unfolding i using w1(2) c(2) by (simp add: new_calls_def)
      then have "(PostLogin c, srv (calls w1) (PostLogin c)) \<in> set (new_calls w (init srv w))"
        by simp
      with assms c(1) show ?thesis by blast
    qed
  qed
  show ?thesis
  proof (cases "truthy (getSavedSessionId w)")
    case False
    have "getSavedCookie (init_tier2 srv (getSavedCookie w) w) = getSavedCookie w"
      by (rule tier2[where ys = "[]"]) (simp_all add: init_no_session[OF False])
    then show ?thesis by (simp add: init_no_session[OF False])
  next
    case True
    then obtain h where h: "getSavedSessionId w = Some h" "h \<noteq> []" by (rule truthyE)
    show ?thesis
    proof (cases "outcome (srv (calls w) (PostValidateSession h))")
      case (Inr d)
      show ?thesis
        unfolding init_validated[where srv = srv, OF h Inr] by (simp add: getSavedCookie_def)
    next
      case (Inl err)
      note e = init_not_validated[where srv = srv, OF h Inl]
      let ?w1 = "clearSavedSessionId (called srv (PostValidateSession h) w)"
      have "getSavedCookie (init_tier2 srv (getSavedCookie w) ?w1) = getSavedCookie w"
        by (rule tier2[where ys = "[(PostValidateSession h, srv (calls w) (PostValidateSession h))]"])
           (simp_all add: e getSavedCookie_def)
      then show ?thesis by (simp add: e)
    qed
  qed
qed

lemma handleLogin_success:
  assumes "trim (sessionCookieInput (ui w)) = c" "c \<noteq> []"
      and "outcome (srv (calls w) (PostLogin c)) = Inr d"
  shows "getSavedCookie (handleLogin srv w) = Some c \<and>
         getSavedSessionId (handleLogin srv w) = Some (data_session_id d) \<and>
         sessionId (st (handleLogin srv w)) = Some (data_session_id d) \<and>
         activeScreen (ui (handleLogin srv w)) = Some pasteLink"
  using assms
  by (simp add: handleLogin_def Let_def apiPost_called getSavedCookie_def getSavedSessionId_def)

lemma runSearchingAnimation_Nil:
  "phases (runSearchingAnimation rnd [] w) = phases w"
  by (simp add: runSearchingAnimation_def showSearchingPhase_def Let_def)

lemma startup_tier1:
  assumes "getSavedSessionId w = Some h" "h \<noteq> []"
      and "outcome (srv (calls w) (PostValidateSession h)) = Inr d"
  shows "localStorage (startup srv page w) = localStorage w"
    and "calls (startup srv page w) = calls w @ [(PostValidateSession h, srv (calls w) (PostValidateSession h))]"
    and "sessionId (st (startup srv page w)) = Some h"
    and "activeScreen (ui (startup srv page w)) = Some pasteLink"
proof -
  let ?w0 = "w\<lparr>st := initial_state, ui := page\<rparr>"
  have g: "getSavedSessionId ?w0 = Some h" using assms(1) by (simp add: getSavedSessionId_def)
  have o: "outcome (srv (calls ?w0) (PostValidateSession h)) = Inr d" using assms(3) by simp
  note e = init_validated[where srv = srv, OF g assms(2) o]
  show "localStorage (startup srv page w) = localStorage w"
    and "calls (startup srv page w) = calls w @ [(PostValidateSession h, srv (calls w) (PostValidateSession h))]"
    and "sessionId (st (startup srv page w)) = Some h"
    and "activeScreen (ui (startup srv page w)) = Some pasteLink"
    unfolding startup_def e by simp_all
qed

lemma startups_tier1:
  assumes "getSavedSessionId w = Some h" "h \<noteq> []"
      and "\<forall>hist. \<not> isl (outcome (srv hist (PostValidateSession h)))"
  shows "localStorage (startups srv page n w) = localStorage w \<and>
         (\<exists>new. calls (startups srv page n w) = calls w @ new \<and>
                map fst new = replicate n (PostValidateSession h)) \<and>
         (0 < n \<longrightarrow> sessionId (st (startups srv page n w)) = Some h \<and>
                    activeScreen (ui (startups srv page n w)) = Some pasteLink)"
  using assms(1)
proof (induction n arbitrary: w)
  case 0
  then show ?case by simp
next
  case (Suc n)
  let ?w1 = "startup srv page w"
  let ?c = "(PostValidateSession h, srv (calls w) (PostValidateSession h))"
  have "\<not> isl (outcome (srv (calls w) (PostValidateSession h)))" using assms(3) by blast
  then obtain d where v: "outcome (srv (calls w) (PostValidateSession h)) = Inr d"
    by (cases "outcome (srv (calls w) (PostValidateSession h))") simp_all
  note s = startup_tier1[where srv = srv and page = page, OF Suc.prems assms(2) v]
  have g: "getSavedSessionId ?w1 = Some h"
    using Suc.prems s(1) by (simp add: getSavedSessionId_def)
  note ih = Suc.IH[OF g]
  from ih obtain new where new: "calls (startups srv page n ?w1) = calls ?w1 @ new"
    "map fst new = replicate n (PostValidateSession h)" by blast
  have c: "calls (startups srv page (Suc n) w) = calls w @ (?c # new)"
    using new(1) s(2) by simp
  have m: "map fst (?c # new) = replicate (Suc n) (PostValidateSession h)"
    using new(2) by simp
  show ?case
  proof (intro conjI)
    show "localStorage (startups srv page (Suc n) w) = localStorage w"
      using ih s(1) by simp
    show "\<exists>new. calls (startups srv page (Suc n) w) = calls w @ new \<and>
                map fst new = replicate (Suc n) (PostValidateSession h)"
      using c m by blast
    show "0 < Suc n \<longrightarrow> sessionId (st (startups srv page (Suc n) w)) = Some h \<and>
                    activeScreen (ui (startups srv page (Suc n) w)) = Some pasteLink"
    proof (cases n)
      case 0
      then show ?thesis using s(3,4) by simp
    next
      case (Suc m)
      then show ?thesis using ih by simp
    qed
  qed
qed

lemma spacing_pos [simp]: "0 < spacing x"
  by (simp add: spacing_def)

lemma spacing_eq:
  assumes "0 < x" "2 powr real_of_int e \<le> x" "x < 2 powr (real_of_int e + 1)"
  shows "spacing x = 2 powr (real_of_int (max e (- 1022)) - 52)"
proof -
  have "\<lfloor>log 2 x\<rfloor> = e"
    using assms by (simp add: floor_log_eq_powr_iff)
  then show ?thesis by (simp add: spacing_def)
qed













lemma countdown_ticks_simps [simp]:
  "st (countdown_ticks n w) = st w"
  "localStorage (countdown_ticks n w) = localStorage w"
  "phases (countdown_ticks n w) = phases w"
  "calls (countdown_ticks n w) = calls w"
  "findingLabel (ui (countdown_ticks n w)) = findingLabel (ui w)"
  by (induction n arbitrary: w) simp_all




lemma fetching_simps [simp]:
  "st (fetching srv w) = st w"
  "localStorage (fetching srv w) = localStorage w"
  "phases (fetching srv w) = phases w"
  "calls (fetching srv w) =
     calls w @ [(PostFetchComments (trim (urlInput (ui w))) (sessionId (st w)),
                 srv (calls w) (PostFetchComments (trim (urlInput (ui w))) (sessionId (st w))))]"
  "ui (fetching srv w) = (ui w)\<lparr>urlError := None, fetchBtn := True, fetchBtnLabel := ''FETCHING...''\<rparr>"
  by (simp_all add: fetching_def)

lemma store_comments_simps [simp]:
  "st (store_comments d w) = (st w)\<lparr>users := data_users d, totalComments := data_total_comments d\<rparr>"
  "ui (store_comments d w) = (ui w)\<lparr>appLoadingHidden := True, activeScreen := Some settings\<rparr>"
  "localStorage (store_comments d w) = localStorage w"
  "phases (store_comments d w) = phases w"
  "calls (store_comments d w) = calls w"
  by (simp_all add: store_comments_def)

lemma redirectToLogin_simps [simp]:
  "st (redirectToLogin m w) = (st w)\<lparr>sessionId := None\<rparr>"
  "ui (redirectToLogin m w) = (ui w)\<lparr>appLoadingHidden := True, activeScreen := Some login, loginError := Some m\<rparr>"
  "localStorage (redirectToLogin m w) = (localStorage w)(SESSION_ID_STORAGE_KEY := None)"
  "phases (redirectToLogin m w) = phases w"
  "calls (redirectToLogin m w) = calls w"
  by (simp_all add: redirectToLogin_def Let_def)

lemma unauthorizedE:
  "unauthorized r \<Longrightarrow> (\<And>err. outcome r = Inl err \<Longrightarrow> is_401 err \<Longrightarrow> P) \<Longrightarrow> P"
  by (cases "outcome r") (simp_all add: unauthorized_def)

lemma fetch_reauthenticated:
  assumes url: "url = trim (urlInput (ui w))" "url \<noteq> []" "INSTAGRAM_URL_RE_test url"
    and f1: "fetch1 = PostFetchComments url (sessionId (st w))"
            "log1 = calls w @ [(fetch1, srv (calls w) fetch1)]"
            "unauthorized (srv (calls w) fetch1)"
    and c: "getSavedCookie w = Some c" "c \<noteq> []"
    and l: "outcome (srv log1 (PostLogin c)) = Inr d"
  shows "handleFetchComments srv w =
     set_ui (\<lambda>u. u\<lparr>fetchBtnLabel := fetchBtnLabel (ui w), fetchBtn := False\<rparr>)
       (let wb = saveSessionId (data_session_id d) (set_sessionId (Some (data_session_id d))
                   (called srv (PostLogin c) (fetching srv w)));
            wc = called srv (PostFetchComments url (Some (data_session_id d))) wb
        in case outcome (srv (calls wb) (PostFetchComments url (Some (data_session_id d)))) of
             Inr d2 \<Rightarrow> store_comments d2 wc
           | Inl retryErr \<Rightarrow> set_ui (\<lambda>u. u\<lparr>urlError := Some (message retryErr)\<rparr>) wc)"
proof -
  from f1(3) obtain err where err: "outcome (srv (calls w) fetch1) = Inl err" "is_401 err"
    by (rule unauthorizedE)
  have gc: "getSavedCookie (fetching srv w) = Some c"
    using c(1) by (simp add: getSavedCookie_def)
  have lg: "outcome (srv (calls (fetching srv w)) (PostLogin c)) = Inr d"
    using l f1(1,2) url(1) by simp
  have t: "tryReauthenticate srv (fetching srv w) =
     (True, saveSessionId (data_session_id d) (set_sessionId (Some (data_session_id d))
              (called srv (PostLogin c) (fetching srv w))))"
    using tryReauthenticate_ok[where srv = srv, OF gc c(2) lg] by (simp add: called_def)
  have h: "handleSessionExpiry srv err (fetching srv w) =
     (reauthenticated, saveSessionId (data_session_id d) (set_sessionId (Some (data_session_id d))
              (called srv (PostLogin c) (fetching srv w))))"
    using err(2) by (simp add: handleSessionExpiry_def t)
  have e1: "outcome (srv (calls w) (PostFetchComments (trim (urlInput (ui w))) (sessionId (st w)))) = Inl err"
    using err(1) f1(1) url(1) by simp
  show ?thesis
  proof (cases "outcome (srv (log1 @ [(PostLogin c, srv log1 (PostLogin c))])
                  (PostFetchComments url (Some (data_session_id d))))")
    case (Inl retryErr)
    then show ?thesis
      using url(2,3) unfolding url(1) f1(1,2)
      by (simp add: handleFetchComments_def e1 h[unfolded fetching_def] apiPost_called Let_def fetching_def)
  next
    case (Inr d2)
    then show ?thesis
      using url(2,3) unfolding url(1) f1(1,2)
      by (simp add: handleFetchComments_def e1 h[unfolded fetching_def] apiPost_called Let_def fetching_def)
  qed
qed

lemma fetch_redirected:
  assumes url: "url = trim (urlInput (ui w))" "url \<noteq> []" "INSTAGRAM_URL_RE_test url"
    and f1: "fetch1 = PostFetchComments url (sessionId (st w))"
            "log1 = calls w @ [(fetch1, srv (calls w) fetch1)]"
            "unauthorized (srv (calls w) fetch1)"
    and t: "tryReauthenticate srv (fetching srv w) = (False, wb)"
  shows "handleFetchComments srv w =
     set_ui (\<lambda>u. u\<lparr>fetchBtnLabel := fetchBtnLabel (ui w), fetchBtn := False\<rparr>)
       (redirectToLogin
          (if truthy (getSavedCookie wb)
           then ''Could not reconnect to Instagram. Please try again.''
           else ''Your session cookie has expired. Please paste a new one.'') wb)"
proof -
  from f1(3) obtain err where err: "outcome (srv (calls w) fetch1) = Inl err" "is_401 err"
    by (rule unauthorizedE)
  have h: "handleSessionExpiry srv err (fetching srv w) =
     (redirected, redirectToLogin
          (if truthy (getSavedCookie wb)
           then ''Could not reconnect to Instagram. Please try again.''
           else ''Your session cookie has expired. Please paste a new one.'') wb)"
    using err(2) by (simp add: handleSessionExpiry_def t)
  have e1: "outcome (srv (calls w) (PostFetchComments (trim (urlInput (ui w))) (sessionId (st w)))) = Inl err"
    using err(1) f1(1) url(1) by simp
  show ?thesis
    using url(2,3) unfolding url(1)
    by (simp add: handleFetchComments_def e1 h[unfolded fetching_def] apiPost_called Let_def)
qed

lemma sample_simps:
  "getSavedCookie returning_visit = Some ''cookie-1''"
  "getSavedSessionId returning_visit = Some ''session-1''"
  "calls returning_visit = []"
  "getSavedCookie link_pasted = Some ''cookie-1''"
  "getSavedSessionId link_pasted = Some ''session-1''"
  "calls link_pasted = []"
  "sessionId (st link_pasted) = Some ''session-1''"
  "trim (urlInput (ui link_pasted)) = ''https://www.instagram.com/p/Cabc123/''"
  by (simp_all add: returning_visit_def first_visit_def link_pasted_def getSavedCookie_def
      getSavedSessionId_def trim_def is_space_def)

lemma sample_url_ok: "INSTAGRAM_URL_RE_test ''https://www.instagram.com/p/Cabc123/''"
  by code_simp

lemma sample_url_bad: "\<not> INSTAGRAM_URL_RE_test (trim ''not-a-url'')"
  by code_simp

lemma tryReauthenticate_fails:
  assumes "\<not> truthy (getSavedCookie w) \<or>
           isl (outcome (srv (calls w) (PostLogin (the (getSavedCookie w)))))"
  shows "\<exists>wb. tryReauthenticate srv w = (False, wb) \<and>
              st wb = st w \<and> ui wb = ui w \<and> phases wb = phases w \<and>
              (getSavedCookie wb = getSavedCookie w \<or> getSavedCookie wb = None) \<and>
              calls wb =
                (if truthy (getSavedCookie w)
                 then calls w @ [(PostLogin (the (getSavedCookie w)),
                                  srv (calls w) (PostLogin (the (getSavedCookie w))))]
                 else calls w)"
proof (cases "truthy (getSavedCookie w)")
  case False
  then show ?thesis by (simp add: tryReauthenticate_no_cookie)
next
  case True
  then obtain c where c: "getSavedCookie w = Some c" "c \<noteq> []" by (rule truthyE)
  with assms True obtain err where err: "outcome (srv (calls w) (PostLogin c)) = Inl err"
    by (auto simp add: isl_def)
  show ?thesis
  proof (cases "is_401 err")
    case False
    show ?thesis
      unfolding tryReauthenticate_transient[where srv = srv, OF c err False]
      using True c by (simp add: getSavedCookie_def)
  next
    case is401: True
    show ?thesis
      unfolding tryReauthenticate_401[where srv = srv, OF c err is401]
      using True c by (simp add: getSavedCookie_def)
  qed
qed




lemma round_double_unfold:
  assumes "x \<noteq> 0" "x / spacing x = q" "\<lfloor>q\<rfloor> = n"
  shows "round_double x =
           (if q - of_int n < 1 / 2 then of_int n * spacing x
            else if 1 / 2 < q - of_int n then (of_int n + 1) * spacing x
            else if even n then of_int n * spacing x
            else (of_int n + 1) * spacing x)"
  using assms by (simp add: round_double_def Let_def)


lemma round_double_tie_odd:
  assumes "0 < x" "2 powr real_of_int e \<le> x" "x < 2 powr (real_of_int e + 1)" "- 1022 \<le> e"
      and "x = (of_int n + 1 / 2) * 2 powr (real_of_int e - 52)" "odd n"
  shows "round_double x = (of_int n + 1) * 2 powr (real_of_int e - 52)"
proof -
  have m: "max e (- 1022) = e" using assms(4) by simp
  have s: "spacing x = 2 powr (real_of_int e - 52)"
    using spacing_eq[OF assms(1-3)] unfolding m .
  have q: "x / spacing x = of_int n + 1 / 2"
    unfolding s by (subst assms(5)) simp
  have f: "\<lfloor>of_int n + (1 / 2 :: real)\<rfloor> = n" by linarith
  have x0: "x \<noteq> 0" using assms(1) by simp
  have "round_double x = (of_int n + 1) * spacing x"
    by (subst round_double_unfold[OF x0 q f]) (simp add: assms(6))
  then show ?thesis unfolding s .
qed




lemma double_times_tie: "double_times tie_value 7 = 4"
proof -
  have "round_double (2573485501354569 / 2 ^ 52 * 7) =
          (of_int 9007199254740991 + 1) * 2 powr (real_of_int 1 - 52)"
    by (rule round_double_tie_odd) (simp_all add: powr_minus_divide)
  also have "\<dots> = 4" by (simp add: powr_minus_divide)
  finally show ?thesis by (simp add: double_times_def tie_value_def)
qed

text \<open>Where the double product and the exact product fall on different sides of 4.\<close>

lemma tie_draw:
  "nat \<lfloor>double_times tie_value 7\<rfloor> = 4"
  "nat \<lfloor>tie_value * 7\<rfloor> = 3"
  by (simp_all add: double_times_tie) (simp add: tie_value_def)







lemma session_lost_simps:
  "session_lost hist (PostFetchComments u (Some ''session-1'')) =
     Replied 401 (Parsed (sample_body\<lparr>data_detail := Some ''Session expired''\<rparr>))"
  "session_lost hist (PostFetchComments u (Some ''session-2'')) =
     Replied 200 (Parsed (sample_body
       \<lparr>data_users := [\<lparr>username = ''alice'', comment_count = 2\<rparr>], data_total_comments := 2\<rparr>))"
  "session_lost hist (PostLogin c) = Replied 200 (Parsed sample_body)"
  by (simp_all add: session_lost_def)

lemma outcome_simps:
  "outcome (Rejected m) = Inl (OtherError m)"
  "outcome (Replied 200 (Parsed b)) = Inr b"
  "outcome (Replied 401 body) =
     Inl (ApiError (or_else (case body of Parsed b \<Rightarrow> data_detail b | Unparsable m \<Rightarrow> None)
                      (''Request failed (HTTP '' @ string_of_nat 401 @ '')'')) 401)"
  "unauthorized (Replied 401 body)"
  by (simp_all add: outcome_def response_ok_def unauthorized_def Let_def)

section \<open>The claims\<close>

text \<open>
  Claim C1. In \<open>tryReauthenticate\<close> and in the session restore of \<open>init\<close>, the persisted
  cookie is deleted only on an explicit unauthorized (HTTP 401) response to the login
  call: whenever no login call of the attempt was answered with a 401, whatever else
  happened (the network failed, the server answered another error status, the body did
  not parse, or the login succeeded), the cookie in \<open>localStorage\<close> is the one that was
  there before.
\<close>

theorem persisted_cookie_survives_transient_failure:
  assumes "w' = snd (tryReauthenticate srv w) \<or> w' = init srv w"
      and "\<forall>c r. (PostLogin c, r) \<in> set (new_calls w w') \<longrightarrow> \<not> unauthorized r"
  shows "getSavedCookie w' = getSavedCookie w"
  using assms(1)
proof
  assume "w' = snd (tryReauthenticate srv w)"
  with assms(2) show ?thesis by (simp add: tryReauthenticate_cookie)
next
  assume "w' = init srv w"
  with assms(2) show ?thesis by (simp add: init_cookie)
qed

theorem persisted_cookie_survives_transient_failure_witness:
  "getSavedCookie (snd (tryReauthenticate offline returning_visit)) = Some ''cookie-1'' \<and>
   getSavedCookie (init offline returning_visit) = Some ''cookie-1''"
proof -
  have o: "outcome (offline hist req) = Inl (OtherError ''Failed to fetch'')" for hist req
    by (simp add: offline_def outcome_def)
  have t: "tryReauthenticate offline returning_visit =
             (False, called offline (PostLogin ''cookie-1'') returning_visit)"
    using tryReauthenticate_transient[where srv = offline, OF sample_simps(1) _ o]
    by (simp add: called_def)
  have i: "init offline returning_visit =
             navigateTo login (called offline (PostLogin ''cookie-1'')
               (clearSavedSessionId (called offline (PostValidateSession ''session-1'') returning_visit)))"
    using init_not_validated[where srv = offline, OF sample_simps(2) _ o]
    by (simp add: init_tier2_transient[where srv = offline, OF sample_simps(1) _ o])
  have u: "\<not> unauthorized (offline hist req)" for hist req
    by (simp add: unauthorized_def o)
  have h1: "\<forall>c r. (PostLogin c, r) \<in> set (new_calls returning_visit (snd (tryReauthenticate offline returning_visit)))
              \<longrightarrow> \<not> unauthorized r"
    by (simp add: t u)
  have h2: "\<forall>c r. (PostLogin c, r) \<in> set (new_calls returning_visit (init offline returning_visit))
              \<longrightarrow> \<not> unauthorized r"
    by (auto simp add: i new_calls_def u)
  show ?thesis
    using persisted_cookie_survives_transient_failure[OF disjI1[OF refl] h1]
          persisted_cookie_survives_transient_failure[OF disjI2[OF refl] h2]
    by (simp add: sample_simps)
qed

text \<open>
  Claim C2. When a session id is persisted and the backend accepts it at
  \<open>/validate-session\<close> whenever asked, every page load adopts the persisted id as
  \<open>state.sessionId\<close> and shows the paste-link screen, and any number \<open>n\<close> of page loads in
  a row makes exactly \<open>n\<close> calls, all of them \<open>/validate-session\<close>: no \<open>/login\<close> call is
  ever issued, and \<open>localStorage\<close> is left as it was.
\<close>

theorem startup_tier1_only:
  assumes "getSavedSessionId w = Some h" "h \<noteq> []"
      and "\<forall>hist. \<not> isl (outcome (srv hist (PostValidateSession h)))"
  shows "map fst (new_calls w (startups srv page n w)) = replicate n (PostValidateSession h) \<and>
         (\<forall>c r. (PostLogin c, r) \<notin> set (new_calls w (startups srv page n w))) \<and>
         localStorage (startups srv page n w) = localStorage w \<and>
         (0 < n \<longrightarrow> sessionId (st (startups srv page n w)) = Some h \<and>
                    activeScreen (ui (startups srv page n w)) = Some pasteLink)"
proof -
  from startups_tier1[where srv = srv and page = page and n = n, OF assms]
  obtain new where new: "calls (startups srv page n w) = calls w @ new"
      "map fst new = replicate n (PostValidateSession h)"
    and rest: "localStorage (startups srv page n w) = localStorage w"
      "0 < n \<longrightarrow> sessionId (st (startups srv page n w)) = Some h \<and>
                 activeScreen (ui (startups srv page n w)) = Some pasteLink"
    by blast
  have n: "new_calls w (startups srv page n w) = new" using new(1) by simp
  have "\<forall>c r. (PostLogin c, r) \<notin> set new"
  proof (intro allI notI)
    fix c r assume "(PostLogin c, r) \<in> set new"
    then have "PostLogin c \<in> set (map fst new)" by force
    then show False using new(2) by simp
  qed
  then show ?thesis using n new(2) rest by simp
qed

theorem startup_tier1_only_witness:
  "getSavedSessionId returning_visit = Some ''session-1'' \<and>
   map fst (calls (startups healthy sample_page 3 returning_visit)) =
     [PostValidateSession ''session-1'', PostValidateSession ''session-1'', PostValidateSession ''session-1''] \<and>
   sessionId (st (startups healthy sample_page 3 returning_visit)) = Some ''session-1''"
proof -
  have v: "\<forall>hist. \<not> isl (outcome (healthy hist (PostValidateSession ''session-1'')))"
    by (simp add: healthy_def outcome_def response_ok_def)
  show ?thesis
    using startup_tier1_only[where srv = healthy and page = sample_page and n = 3, OF sample_simps(2) _ v]
    by (simp add: new_calls_def sample_simps numeral_3_eq_3)
qed

text \<open>
  Claim C3. A well-formed submission whose \<open>/fetch-comments\<close> call is answered 401, with a
  cookie persisted and the \<open>/login\<close> call made with it succeeding, makes exactly three
  calls within the one run of \<open>handleFetchComments\<close>: the fetch, the login, and one retry
  of the fetch with the same URL and the session id just issued. There is no further
  call, whatever the retry's outcome. When the retry succeeds, the commenters and the
  total are stored and the settings screen is shown; when it fails, its message is
  shown in the URL error paragraph and the screen stays. Either way the button is
  enabled again with its label restored, and the new session id is current and
  persisted.
\<close>

theorem fetch_retried_once_after_reauthentication:
  assumes "url = trim (urlInput (ui w))" "url \<noteq> []" "INSTAGRAM_URL_RE_test url"
      and "fetch1 = PostFetchComments url (sessionId (st w))"
      and "log1 = calls w @ [(fetch1, srv (calls w) fetch1)]"
      and "unauthorized (srv (calls w) fetch1)"
      and "getSavedCookie w = Some c" "c \<noteq> []"
      and "outcome (srv log1 (PostLogin c)) = Inr d"
      and "fetch2 = PostFetchComments url (Some (data_session_id d))"
      and "log2 = log1 @ [(PostLogin c, srv log1 (PostLogin c))]"
      and "w' = handleFetchComments srv w"
  shows "calls w' = log2 @ [(fetch2, srv log2 fetch2)] \<and>
         sessionId (st w') = Some (data_session_id d) \<and>
         getSavedSessionId w' = Some (data_session_id d) \<and>
         getSavedCookie w' = Some c \<and>
         fetchBtn (ui w') = False \<and>
         fetchBtnLabel (ui w') = fetchBtnLabel (ui w) \<and>
         (case outcome (srv log2 fetch2) of
            Inr d2 \<Rightarrow>
              users (st w') = data_users d2 \<and>
              totalComments (st w') = data_total_comments d2 \<and>
              activeScreen (ui w') = Some settings \<and>
              urlError (ui w') = None
          | Inl retryErr \<Rightarrow>
              users (st w') = users (st w) \<and>
              totalComments (st w') = totalComments (st w) \<and>
              activeScreen (ui w') = activeScreen (ui w) \<and>
              urlError (ui w') = Some (message retryErr))"
proof -
  note e = fetch_reauthenticated[where srv = srv, OF assms(1-9)]
  have c: "getSavedCookie w = Some c" by (rule assms(7))
  show ?thesis
  proof (cases "outcome (srv log2 fetch2)")
    case (Inl retryErr)
    then show ?thesis
      using c unfolding assms(12) e assms(10,11) assms(5) assms(4) assms(1)
      by (simp add: Let_def getSavedSessionId_def getSavedCookie_def)
  next
    case (Inr d2)
    then show ?thesis
      using c unfolding assms(12) e assms(10,11) assms(5) assms(4) assms(1)
      by (simp add: Let_def getSavedSessionId_def getSavedCookie_def)
  qed
qed

theorem fetch_retried_once_after_reauthentication_witness:
  "map fst (calls (handleFetchComments session_lost link_pasted)) =
     [PostFetchComments ''https://www.instagram.com/p/Cabc123/'' (Some ''session-1''),
      PostLogin ''cookie-1'',
      PostFetchComments ''https://www.instagram.com/p/Cabc123/'' (Some ''session-2'')] \<and>
   users (st (handleFetchComments session_lost link_pasted)) =
     [\<lparr>username = ''alice'', comment_count = 2\<rparr>] \<and>
   activeScreen (ui (handleFetchComments session_lost link_pasted)) = Some settings"
proof -
  let ?url = "''https://www.instagram.com/p/Cabc123/''"
  have h1: "?url = trim (urlInput (ui link_pasted))" by (simp add: sample_simps)
  have h2: "?url \<noteq> []" by simp
  have h6: "unauthorized (session_lost (calls link_pasted)
              (PostFetchComments ?url (sessionId (st link_pasted))))"
    by (simp add: sample_simps session_lost_simps outcome_simps)
  have h8: "''cookie-1'' \<noteq> []" by simp
  have h9: "outcome (session_lost
              (calls link_pasted @
                 [(PostFetchComments ?url (sessionId (st link_pasted)),
                   session_lost (calls link_pasted) (PostFetchComments ?url (sessionId (st link_pasted))))])
              (PostLogin ''cookie-1'')) = Inr sample_body"
    by (simp add: session_lost_simps outcome_simps)
  have s2: "data_session_id sample_body = ''session-2''" by (simp add: sample_body_def)
  show ?thesis
    using fetch_retried_once_after_reauthentication
      [where srv = session_lost and w = link_pasted and url = ?url and c = "''cookie-1''"
         and d = sample_body,
       OF h1 h2 sample_url_ok refl refl h6 sample_simps(4) h8 h9 refl refl refl]
    by (simp add: sample_simps session_lost_simps outcome_simps s2)
qed

text \<open>
  Claim C4. A well-formed submission whose \<open>/fetch-comments\<close> call is answered 401, when
  re-authentication does not succeed (no cookie is persisted, or the \<open>/login\<close> call made
  with it fails), ends in the run state \<open>Idle\<close>: the login screen is shown with an error
  message surfaced on it, the fetch button is enabled again with its label restored,
  the session id is dropped from memory and from storage, the commenters stored before
  are untouched, and the fetch is not retried.
\<close>

theorem unauthorized_fetch_without_recovery_returns_to_idle:
  assumes "url = trim (urlInput (ui w))" "url \<noteq> []" "INSTAGRAM_URL_RE_test url"
      and "fetch1 = PostFetchComments url (sessionId (st w))"
      and "log1 = calls w @ [(fetch1, srv (calls w) fetch1)]"
      and "unauthorized (srv (calls w) fetch1)"
      and "\<not> truthy (getSavedCookie w) \<or>
           isl (outcome (srv log1 (PostLogin (the (getSavedCookie w)))))"
      and "w' = handleFetchComments srv w"
  shows "RunState_of w' = Idle \<and>
         activeScreen (ui w') = Some login \<and>
         loginError (ui w') =
           Some (if truthy (getSavedCookie w')
                 then ''Could not reconnect to Instagram. Please try again.''
                 else ''Your session cookie has expired. Please paste a new one.'') \<and>
         urlError (ui w') = None \<and>
         fetchBtn (ui w') = False \<and>
         fetchBtnLabel (ui w') = fetchBtnLabel (ui w) \<and>
         sessionId (st w') = None \<and>
         getSavedSessionId w' = None \<and>
         users (st w') = users (st w) \<and>
         totalComments (st w') = totalComments (st w) \<and>
         calls w' =
           (if truthy (getSavedCookie w)
            then log1 @ [(PostLogin (the (getSavedCookie w)),
                          srv log1 (PostLogin (the (getSavedCookie w))))]
            else log1)"
proof -
  let ?wa = "fetching srv w"
  have ca: "calls ?wa = log1" "getSavedCookie ?wa = getSavedCookie w"
    using assms(1,4,5) by (simp_all add: getSavedCookie_def)
  have "\<not> truthy (getSavedCookie ?wa) \<or>
        isl (outcome (srv (calls ?wa) (PostLogin (the (getSavedCookie ?wa)))))"
    using assms(7) unfolding ca .
  from tryReauthenticate_fails[where srv = srv, OF this]
  obtain wb where wb: "tryReauthenticate srv ?wa = (False, wb)"
    "st wb = st ?wa" "ui wb = ui ?wa" "phases wb = phases ?wa"
    "calls wb =
       (if truthy (getSavedCookie ?wa)
        then calls ?wa @ [(PostLogin (the (getSavedCookie ?wa)),
                           srv (calls ?wa) (PostLogin (the (getSavedCookie ?wa))))]
        else calls ?wa)"
    by blast
  note e = fetch_redirected[where srv = srv, OF assms(1-6) wb(1)]
  have g: "getSavedCookie w' = getSavedCookie wb"
    unfolding assms(8) e by (simp add: getSavedCookie_def)
  show ?thesis
    unfolding g unfolding assms(8) e
    using wb(2-5) unfolding ca
    by (simp add: RunState_of_def getSavedSessionId_def)
qed

theorem unauthorized_fetch_without_recovery_returns_to_idle_witness:
  "RunState_of (handleFetchComments revoked link_pasted) = Idle \<and>
   activeScreen (ui (handleFetchComments revoked link_pasted)) = Some login \<and>
   map fst (calls (handleFetchComments revoked link_pasted)) =
     [PostFetchComments ''https://www.instagram.com/p/Cabc123/'' (Some ''session-1''),
      PostLogin ''cookie-1'']"
proof -
  let ?url = "''https://www.instagram.com/p/Cabc123/''"
  have h1: "?url = trim (urlInput (ui link_pasted))" by (simp add: sample_simps)
  have h2: "?url \<noteq> []" by simp
  have h6: "unauthorized (revoked (calls link_pasted)
              (PostFetchComments ?url (sessionId (st link_pasted))))"
    by (simp add: revoked_def outcome_simps)
  have h7: "\<not> truthy (getSavedCookie link_pasted) \<or>
            isl (outcome (revoked
              (calls link_pasted @
                 [(PostFetchComments ?url (sessionId (st link_pasted)),
                   revoked (calls link_pasted) (PostFetchComments ?url (sessionId (st link_pasted))))])
              (PostLogin (the (getSavedCookie link_pasted)))))"
    by (simp add: revoked_def outcome_simps)
  show ?thesis
    using unauthorized_fetch_without_recovery_returns_to_idle
      [where srv = revoked and w = link_pasted and url = ?url,
       OF h1 h2 sample_url_ok refl refl h6 h7 refl]
    by (simp add: sample_simps truthy_def)
qed

text \<open>
  Claim C5. When the login form is submitted and the login fails (the input is empty,
  the network fails, or the server answers with any error, 401 included), nothing is
  written to \<open>localStorage\<close>, neither cookie nor session id, and \<open>state.sessionId\<close> keeps
  its value; the error is shown on the login screen. Hence the two keys are written
  only by a login that succeeded.
\<close>

theorem handleLogin_failure_persists_nothing:
  assumes "trim (sessionCookieInput (ui w)) = [] \<or>
           isl (outcome (srv (calls w) (PostLogin (trim (sessionCookieInput (ui w))))))"
  shows "localStorage (handleLogin srv w) = localStorage w \<and>
         sessionId (st (handleLogin srv w)) = sessionId (st w) \<and>
         calls (handleLogin srv w) =
           (if trim (sessionCookieInput (ui w)) = [] then calls w
            else calls w @ [(PostLogin (trim (sessionCookieInput (ui w))),
                             srv (calls w) (PostLogin (trim (sessionCookieInput (ui w)))))]) \<and>
         loginError (ui (handleLogin srv w)) \<noteq> None \<and>
         activeScreen (ui (handleLogin srv w)) = activeScreen (ui w)"
proof (cases "trim (sessionCookieInput (ui w)) = []")
  case True
  then show ?thesis by (simp add: handleLogin_def Let_def)
next
  case False
  with assms obtain err where
    "outcome (srv (calls w) (PostLogin (trim (sessionCookieInput (ui w))))) = Inl err"
    by (auto simp add: isl_def)
  with False show ?thesis by (simp add: handleLogin_def Let_def apiPost_called)
qed

theorem handleLogin_failure_persists_nothing_witness:
  "localStorage (handleLogin revoked (first_visit\<lparr>ui := sample_page\<lparr>sessionCookieInput := ''stale-cookie''\<rparr>\<rparr>)) = Map.empty \<and>
   localStorage (handleLogin offline (returning_visit\<lparr>ui := sample_page\<lparr>sessionCookieInput := ''other-cookie ''\<rparr>\<rparr>)) =
     [COOKIE_STORAGE_KEY \<mapsto> ''cookie-1'', SESSION_ID_STORAGE_KEY \<mapsto> ''session-1'']"
proof -
  let ?w1 = "first_visit\<lparr>ui := sample_page\<lparr>sessionCookieInput := ''stale-cookie''\<rparr>\<rparr>"
  let ?w2 = "returning_visit\<lparr>ui := sample_page\<lparr>sessionCookieInput := ''other-cookie ''\<rparr>\<rparr>"
  have h1: "trim (sessionCookieInput (ui ?w1)) = [] \<or>
            isl (outcome (revoked (calls ?w1) (PostLogin (trim (sessionCookieInput (ui ?w1))))))"
    by (simp add: revoked_def outcome_def response_ok_def)
  have h2: "trim (sessionCookieInput (ui ?w2)) = [] \<or>
            isl (outcome (offline (calls ?w2) (PostLogin (trim (sessionCookieInput (ui ?w2))))))"
    by (simp add: offline_def outcome_def)
  show ?thesis
    using handleLogin_failure_persists_nothing[where srv = revoked and w = ?w1, OF h1]
          handleLogin_failure_persists_nothing[where srv = offline and w = ?w2, OF h2]
    by (simp add: first_visit_def returning_visit_def)
qed





text \<open>
  Claim C8. When the trimmed content of the URL field does not match
  \<open>INSTAGRAM_URL_RE\<close>, \<open>handleFetchComments\<close> only shows a validation message in the URL
  error paragraph: no call is made, and \<open>state\<close>, \<open>localStorage\<close> and every other element
  are unchanged.
\<close>

theorem malformed_url_no_network_call:
  assumes "\<not> INSTAGRAM_URL_RE_test (trim (urlInput (ui w)))"
  shows "handleFetchComments srv w =
           w\<lparr>ui := (ui w)\<lparr>urlError :=
                Some (if trim (urlInput (ui w)) = [] then ''Please paste an Instagram link.''
                      else ''That doesn't look like a valid Instagram post URL.'')\<rparr>\<rparr> \<and>
         calls (handleFetchComments srv w) = calls w \<and>
         st (handleFetchComments srv w) = st w \<and>
         localStorage (handleFetchComments srv w) = localStorage w"
  using assms
  by (simp add: handleFetchComments_def set_ui_def Let_def)

theorem malformed_url_no_network_call_witness:
  "\<not> INSTAGRAM_URL_RE_test (trim ''not-a-url'') \<and>
   calls (handleFetchComments healthy (link_pasted\<lparr>ui := sample_page\<lparr>urlInput := ''not-a-url''\<rparr>\<rparr>)) = [] \<and>
   urlError (ui (handleFetchComments healthy (link_pasted\<lparr>ui := sample_page\<lparr>urlInput := ''not-a-url''\<rparr>\<rparr>))) =
     Some ''That doesn't look like a valid Instagram post URL.''"
proof -
  let ?w = "link_pasted\<lparr>ui := sample_page\<lparr>urlInput := ''not-a-url''\<rparr>\<rparr>"
  have h: "\<not> INSTAGRAM_URL_RE_test (trim (urlInput (ui ?w)))"
    using sample_url_bad by simp
  have t: "trim ''not-a-url'' \<noteq> []" by (simp add: trim_def is_space_def)
  show ?thesis
    using malformed_url_no_network_call[where srv = healthy and w = ?w, OF h] sample_url_bad t
    by (simp add: sample_simps)
qed

text \<open>
  Claim C9. For an error that is not an \<open>ApiError\<close> with status 401,
  \<open>handleSessionExpiry\<close> returns \<open>not_session_error\<close> and changes nothing: no call, and the
  same \<open>state\<close>, \<open>localStorage\<close> and DOM.
\<close>

theorem handleSessionExpiry_not_401:
  assumes "\<not> is_401 err"
  shows "handleSessionExpiry srv err w = (not_session_error, w)"
  using assms by (simp add: handleSessionExpiry_def)

theorem handleSessionExpiry_not_401_witness:
  "handleSessionExpiry healthy (OtherError ''Failed to fetch'') link_pasted = (not_session_error, link_pasted) \<and>
   handleSessionExpiry healthy (ApiError ''Post not found'' 404) link_pasted = (not_session_error, link_pasted)"
proof -
  have h1: "\<not> is_401 (OtherError ''Failed to fetch'')" by simp
  have h2: "\<not> is_401 (ApiError ''Post not found'' 404)" by simp
  show ?thesis
    using handleSessionExpiry_not_401[OF h1, of healthy link_pasted]
          handleSessionExpiry_not_401[OF h2, of healthy link_pasted]
    by simp
qed

text \<open>
  Claim C10. For an empty winner list \<open>runSearchingAnimation\<close> runs no countdown phase
  and no reveal phase; when \<open>/pick-winners\<close> answers with no winners, \<open>handleRunGiveaway\<close>
  goes on to the results screen with an empty winners list, no error shown and the
  button enabled again.
\<close>

theorem empty_winner_list_goes_to_results:
  assumes "outcome (srv (calls w) (PostPickWinners (users (st w)) (numWinners (st w)) (minComments (st w)))) = Inr d"
      and "data_winners d = []"
  shows "phases (runSearchingAnimation rnd [] w) = phases w \<and>
         phases (handleRunGiveaway srv rnd w) = phases w \<and>
         activeScreen (ui (handleRunGiveaway srv rnd w)) = Some results \<and>
         winnersList (ui (handleRunGiveaway srv rnd w)) = [] \<and>
         winners (st (handleRunGiveaway srv rnd w)) = [] \<and>
         settingsError (ui (handleRunGiveaway srv rnd w)) = None \<and>
         runGiveawayBtn (ui (handleRunGiveaway srv rnd w)) = False"
  using assms
  by (simp add: handleRunGiveaway_def runSearchingAnimation_def showSearchingPhase_def
      showResults_def apiPost_called Let_def)

theorem empty_winner_list_goes_to_results_witness:
  "data_winners sample_body = [] \<and>
   phases (handleRunGiveaway healthy (\<lambda>k. 1 / 2) link_pasted) = [] \<and>
   activeScreen (ui (handleRunGiveaway healthy (\<lambda>k. 1 / 2) link_pasted)) = Some results"
proof -
  have h1: "outcome (healthy (calls link_pasted)
              (PostPickWinners (users (st link_pasted)) (numWinners (st link_pasted)) (minComments (st link_pasted))))
            = Inr sample_body"
    by (simp add: healthy_def outcome_def response_ok_def)
  have h2: "data_winners sample_body = []" by (simp add: sample_body_def)
  have p: "phases link_pasted = []"
    by (simp add: link_pasted_def returning_visit_def first_visit_def)
  show ?thesis
    using empty_winner_list_goes_to_results[where srv = healthy and w = link_pasted and rnd = "\<lambda>k. 1 / 2", OF h1 h2] h2 p
    by simp
qed

end
